theory Spec2Isabelle
  imports Main
begin

section \<open>The glossary scraper \<^verbatim>\<open>djg_munich.py\<close>\<close>

text \<open>
  The script drives a browser through Selenium, downloads images through
  \<^verbatim>\<open>requests\<close>, sanitises file names through \<^verbatim>\<open>pathvalidate\<close> and writes one
  JSON file. None of these libraries is part of the script, so the model takes them
  as a parameter: a record \<open>env\<close> of operations over an abstract world \<open>'w\<close>
  (browser, network and file system together). Every operation may change the world
  and may raise. The script itself is translated function by function; what it adds
  to the world's behaviour (clicks, sleeps, printed diagnostics, downloads and file
  writes) is recorded in a chronological log, so that its input/output behaviour can
  be stated.
\<close>

subsection \<open>Python values\<close>

type_synonym element = nat
  \<comment> \<open>a Selenium \<^verbatim>\<open>WebElement\<close> handle\<close>

type_synonym bytes = "char list"

datatype exn =
    NoSuchElementException
  | StaleElementReferenceException
  | TimeoutException
  | WebDriverException string
  | RequestException string
  | MissingSchema
  | OSError string
  | IndexError
  | KeyError
  | TypeError
  | AttributeError

text \<open>What a lookup is called on: the driver itself or an element.\<close>

datatype handle = Driver | Element element

text \<open>
  What \<^verbatim>\<open>execute_with_exception_handling\<close> hands back when it does not hand back
  \<^verbatim>\<open>None\<close>: one element (\<^verbatim>\<open>find_element\<close>) or a list (\<^verbatim>\<open>find_elements\<close>).
\<close>

datatype found = One element | Many "element list"

record response =
  status_code :: int
  content :: bytes

text \<open>
  The values that end up in the extracted dictionary. A Python \<^verbatim>\<open>dict\<close> keeps
  insertion order, so an object is an association list with unique keys.
\<close>

datatype json = JNull | JStr string | JList "json list" | JObj "(string \<times> json) list"

type_synonym dict = "(string \<times> json) list"

fun dict_get :: "(string \<times> 'v) list \<Rightarrow> string \<Rightarrow> 'v option" where
  "dict_get [] k = None"
| "dict_get ((k', v) # d) k = (if k' = k then Some v else dict_get d k)"

text \<open>\<^verbatim>\<open>d[k] = v\<close>: an existing key keeps its position, a new key goes last.\<close>

fun dict_set :: "(string \<times> 'v) list \<Rightarrow> string \<Rightarrow> 'v \<Rightarrow> (string \<times> 'v) list" where
  "dict_set [] k v = [(k, v)]"
| "dict_set ((k', v') # d) k v = (if k' = k then (k, v) # d else (k', v') # dict_set d k v)"

definition keys :: "(string \<times> 'v) list \<Rightarrow> string list" where
  "keys d = map fst d"


text \<open>\<^verbatim>\<open>str(n)\<close> for a non-negative integer: decimal digits, no leading zero.\<close>

definition digit_char :: "nat \<Rightarrow> char" where
  "digit_char d = ''0123456789'' ! d"

function str_nat :: "nat \<Rightarrow> string" where
  "str_nat n = (if n < 10 then [digit_char n] else str_nat (n div 10) @ [digit_char (n mod 10)])"
  by pat_completeness auto
termination
  by (relation "measure id") auto

declare str_nat.simps [simp del]


text \<open>\<^verbatim>\<open>enumerate(xs)\<close>\<close>

definition enumerate_list :: "'a list \<Rightarrow> (nat \<times> 'a) list" where
  "enumerate_list xs = zip [0..<length xs] xs"

text \<open>Selenium's locator strategies are plain strings.\<close>

definition By_TAG_NAME :: string where
  "By_TAG_NAME = ''tag name''"

definition By_XPATH :: string where
  "By_XPATH = ''xpath''"

subsection \<open>The log and the state\<close>

datatype event =
    Click element
  | Sleep nat
  | Print string
  | HttpGet string response
  | FileWrite string bytes
  | JsonDump string dict bool bool

record 'w state =
  world :: 'w
  log :: "event list"

text \<open>A statement of the script: it runs on a state and returns a value or raises.\<close>

type_synonym ('w, 'a) prog = "'w state \<Rightarrow> (exn + 'a) \<times> 'w state"

definition ret :: "'a \<Rightarrow> ('w, 'a) prog" where
  "ret x st = (Inr x, st)"

definition raise :: "exn \<Rightarrow> ('w, 'a) prog" where
  "raise e st = (Inl e, st)"

definition lift :: "exn + 'a \<Rightarrow> ('w, 'a) prog" where
  "lift r st = (r, st)"

definition bind :: "('w, 'a) prog \<Rightarrow> ('a \<Rightarrow> ('w, 'b) prog) \<Rightarrow> ('w, 'b) prog" where
  "bind m f st =
     (case m st of
        (Inl e, st') \<Rightarrow> (Inl e, st')
      | (Inr x, st') \<Rightarrow> f x st')"

definition emit :: "event \<Rightarrow> ('w, unit) prog" where
  "emit ev st = (Inr (), st\<lparr>log := log st @ [ev]\<rparr>)"

text \<open>A call into a library: the world moves on, the log does not.\<close>

definition call :: "('w \<Rightarrow> (exn + 'a) \<times> 'w) \<Rightarrow> ('w, 'a) prog" where
  "call op st = (case op (world st) of (r, w') \<Rightarrow> (r, st\<lparr>world := w'\<rparr>))"

text \<open>
  \<^verbatim>\<open>try: ... except selenium.common.NoSuchElementException: ...\<close>: only this one
  exception class is handled.
\<close>

definition try_except_NoSuchElement :: "('w, 'a) prog \<Rightarrow> ('w, 'a) prog \<Rightarrow> ('w, 'a) prog" where
  "try_except_NoSuchElement body handler st =
     (case body st of
        (Inl e, st') \<Rightarrow> (if e = NoSuchElementException then handler st' else (Inl e, st'))
      | (Inr x, st') \<Rightarrow> (Inr x, st'))"

subsection \<open>The libraries, as a parameter\<close>

record 'w env =
  os_path_exists :: "string \<Rightarrow> 'w \<Rightarrow> (exn + bool) \<times> 'w"
  os_mkdir :: "string \<Rightarrow> 'w \<Rightarrow> (exn + unit) \<times> 'w"
  webdriver_Firefox :: "(string \<times> bool) list \<Rightarrow> 'w \<Rightarrow> (exn + unit) \<times> 'w"
  implicitly_wait :: "nat \<Rightarrow> 'w \<Rightarrow> (exn + unit) \<times> 'w"
  driver_get :: "string \<Rightarrow> 'w \<Rightarrow> (exn + unit) \<times> 'w"
  execute_script :: "string \<Rightarrow> 'w \<Rightarrow> (exn + unit) \<times> 'w"
  switch_to_frame :: "element \<Rightarrow> 'w \<Rightarrow> (exn + unit) \<times> 'w"
  driver_quit :: "'w \<Rightarrow> (exn + unit) \<times> 'w"
  find_element :: "handle \<Rightarrow> string \<Rightarrow> string \<Rightarrow> 'w \<Rightarrow> (exn + element) \<times> 'w"
  find_elements :: "handle \<Rightarrow> string \<Rightarrow> string \<Rightarrow> 'w \<Rightarrow> (exn + element list) \<times> 'w"
  element_click :: "element \<Rightarrow> 'w \<Rightarrow> (exn + unit) \<times> 'w"
  element_text :: "element \<Rightarrow> 'w \<Rightarrow> (exn + string) \<times> 'w"
  get_attribute :: "element \<Rightarrow> string \<Rightarrow> 'w \<Rightarrow> (exn + string option) \<times> 'w"
  until_visibility_of :: "nat \<Rightarrow> found option \<Rightarrow> 'w \<Rightarrow> (exn + element) \<times> 'w"
  until_element_to_be_clickable :: "nat \<Rightarrow> element \<Rightarrow> 'w \<Rightarrow> (exn + element) \<times> 'w"
  time_sleep :: "nat \<Rightarrow> 'w \<Rightarrow> 'w"
  requests_get :: "string \<Rightarrow> 'w \<Rightarrow> (exn + response) \<times> 'w"
  sanitize_filename :: "string \<Rightarrow> string"
  open_write :: "string \<Rightarrow> bytes \<Rightarrow> 'w \<Rightarrow> (exn + unit) \<times> 'w"
  json_dump :: "dict \<Rightarrow> string \<Rightarrow> bool \<Rightarrow> bool \<Rightarrow> 'w \<Rightarrow> (exn + unit) \<times> 'w"

text \<open>\<^verbatim>\<open>element.click()\<close>, logged when it is issued.\<close>

definition click :: "'w env \<Rightarrow> element \<Rightarrow> ('w, unit) prog" where
  "click env e = bind (emit (Click e)) (\<lambda>_. call (element_click env e))"

text \<open>\<^verbatim>\<open>time.sleep(n)\<close>\<close>

definition sleep :: "'w env \<Rightarrow> nat \<Rightarrow> ('w, unit) prog" where
  "sleep env n = bind (emit (Sleep n)) (\<lambda>_. call (\<lambda>w. (Inr (), time_sleep env n w)))"

text \<open>\<^verbatim>\<open>print(msg)\<close>\<close>

definition print :: "string \<Rightarrow> ('w, unit) prog" where
  "print msg = emit (Print msg)"

subsection \<open>What Python does with a lookup result\<close>

text \<open>\<^verbatim>\<open>data[n]\<close>: only a list can be indexed, and only in range.\<close>

definition subscript :: "found option \<Rightarrow> nat \<Rightarrow> exn + element" where
  "subscript data n =
     (case data of
        None \<Rightarrow> Inl TypeError
      | Some (One e) \<Rightarrow> Inl TypeError
      | Some (Many xs) \<Rightarrow> (if n < length xs then Inr (xs ! n) else Inl IndexError))"

text \<open>\<^verbatim>\<open>for x in data\<close>: only a list can be iterated.\<close>

definition iterate :: "found option \<Rightarrow> exn + element list" where
  "iterate data =
     (case data of
        None \<Rightarrow> Inl TypeError
      | Some (One e) \<Rightarrow> Inl TypeError
      | Some (Many xs) \<Rightarrow> Inr xs)"

text \<open>
  \<^verbatim>\<open>if data:\<close>: \<^verbatim>\<open>None\<close> and the empty list are false; a \<^verbatim>\<open>WebElement\<close> defines
  neither \<^verbatim>\<open>__bool__\<close> nor \<^verbatim>\<open>__len__\<close> and is true.
\<close>

definition truthy :: "found option \<Rightarrow> bool" where
  "truthy data =
     (case data of
        None \<Rightarrow> False
      | Some (One e) \<Rightarrow> True
      | Some (Many xs) \<Rightarrow> xs \<noteq> [])"

text \<open>\<^verbatim>\<open>data.text\<close>\<close>

definition text_of :: "'w env \<Rightarrow> found option \<Rightarrow> ('w, string) prog" where
  "text_of env data =
     (case data of
        None \<Rightarrow> raise AttributeError
      | Some (One e) \<Rightarrow> call (element_text env e)
      | Some (Many xs) \<Rightarrow> raise AttributeError)"

text \<open>\<^verbatim>\<open>buttons[j]\<close>\<close>

definition list_index :: "'a list \<Rightarrow> nat \<Rightarrow> exn + 'a" where
  "list_index xs n = (if n < length xs then Inr (xs ! n) else Inl IndexError)"

text \<open>A URL in the \<^verbatim>\<open>images\<close> list, as it is serialised.\<close>

definition json_of_url :: "string option \<Rightarrow> json" where
  "json_of_url u = (case u of None \<Rightarrow> JNull | Some s \<Rightarrow> JStr s)"

subsection \<open>\<^verbatim>\<open>start_webdriver\<close>\<close>


subsection \<open>\<^verbatim>\<open>execute_with_exception_handling\<close>\<close>

definition not_found_message :: "string \<Rightarrow> string \<Rightarrow> string" where
  \<open>not_found_message filter_name by_filter =
     ''Couldn't find element '' @ filter_name @ '' with filter '' @ by_filter @ ''!''\<close>

definition execute_with_exception_handling ::
    "'w env \<Rightarrow> handle \<Rightarrow> string \<Rightarrow> string \<Rightarrow> bool \<Rightarrow> ('w, found option) prog" where
  "execute_with_exception_handling env driver by_filter filter_name all_elements =
     try_except_NoSuchElement
       (if all_elements
        then bind (call (find_elements env driver by_filter filter_name))
               (\<lambda>data. ret (Some (Many data)))
        else bind (call (find_element env driver by_filter filter_name))
               (\<lambda>data. ret (Some (One data))))
       (bind (print (not_found_message filter_name by_filter)) (\<lambda>_. ret None))"

subsection \<open>\<^verbatim>\<open>click_alpha_navigation_button\<close>\<close>

definition click_alpha_navigation_button ::
    "'w env \<Rightarrow> nat \<Rightarrow> handle \<Rightarrow> element \<Rightarrow> ('w, element \<times> found option) prog" where
  "click_alpha_navigation_button env i driver element =
     bind (if i \<noteq> 0 then click env element else ret ()) (\<lambda>_.
     bind (sleep env 2) (\<lambda>_.
     bind (execute_with_exception_handling env driver By_TAG_NAME ''ul'' True) (\<lambda>uls.
     bind (lift (subscript uls 1)) (\<lambda>accordion_item.
     bind (execute_with_exception_handling env (Element accordion_item) By_XPATH ''.//button'' True)
       (\<lambda>button_elements.
     ret (accordion_item, button_elements))))))"

subsection \<open>\<^verbatim>\<open>process_webpage_elements\<close>\<close>

text \<open>
  \<^verbatim>\<open>requests.get(image_url)\<close>. An image without a \<^verbatim>\<open>src\<close> attribute gives
  \<^verbatim>\<open>None\<close>, which \<^verbatim>\<open>requests\<close> rejects as a URL without a scheme before it
  sends anything. A response that did arrive is logged.
\<close>

definition http_get :: "'w env \<Rightarrow> string option \<Rightarrow> ('w, response) prog" where
  "http_get env image_url =
     (case image_url of
        None \<Rightarrow> raise MissingSchema
      | Some u \<Rightarrow> bind (call (requests_get env u)) (\<lambda>r. bind (emit (HttpGet u r)) (\<lambda>_. ret r)))"

text \<open>\<^verbatim>\<open>with open(filename, 'wb+') as f: f.write(data)\<close>, logged once it is done.\<close>

definition write_file :: "'w env \<Rightarrow> string \<Rightarrow> bytes \<Rightarrow> ('w, unit) prog" where
  "write_file env filename data =
     bind (call (open_write env filename data)) (\<lambda>_. emit (FileWrite filename data))"

definition image_filename :: "'w env \<Rightarrow> string \<Rightarrow> nat \<Rightarrow> string" where
  "image_filename env button_text i =
     ''./images/'' @ sanitize_filename env (button_text @ ''_'' @ str_nat i) @ ''.png''"

text \<open>The loop over \<^verbatim>\<open>enumerate(image_boxes)\<close>, with \<^verbatim>\<open>images\<close> as it grows.\<close>

fun download_images ::
    "'w env \<Rightarrow> string \<Rightarrow> (nat \<times> element) list \<Rightarrow> string option list
      \<Rightarrow> ('w, string option list) prog" where
  "download_images env button_text [] images = ret images"
| "download_images env button_text ((i, image_box) # rest) images =
     bind (call (get_attribute env image_box ''src'')) (\<lambda>image_url.
     bind (http_get env image_url) (\<lambda>response.
     bind (if status_code response = 200
           then write_file env (image_filename env button_text i) (content response)
           else ret ()) (\<lambda>_.
     download_images env button_text rest (images @ [image_url]))))"

definition process_webpage_elements ::
    "'w env \<Rightarrow> nat \<Rightarrow> element \<Rightarrow> element \<Rightarrow> string list \<Rightarrow> ('w, dict) prog" where
  \<open>process_webpage_elements env j element accordion_item buttons =
     bind (if j \<noteq> 0 then click env element else ret ()) (\<lambda>_.
     bind (sleep env 3) (\<lambda>_.
     bind (lift (list_index buttons j)) (\<lambda>button_text.
     bind (execute_with_exception_handling env (Element accordion_item) By_XPATH
             ''//div[@data-hook="children"]'' False) (\<lambda>text_box.
     bind (if truthy text_box
           then bind (text_of env text_box)
                  (\<lambda>t. ret (dict_set (dict_set [] ''header'' (JStr button_text)) ''text'' (JStr t)))
           else ret (dict_set [] ''header'' (JStr button_text))) (\<lambda>data_container.
     bind (execute_with_exception_handling env (Element accordion_item) By_XPATH ''//img'' True)
       (\<lambda>image_boxes.
     bind (lift (iterate image_boxes)) (\<lambda>boxes.
     bind (download_images env button_text (enumerate_list boxes) []) (\<lambda>images.
     ret (dict_set data_container ''images'' (JList (map json_of_url images)))))))))))\<close>

subsection \<open>\<^verbatim>\<open>load_website\<close>\<close>





subsection \<open>\<^verbatim>\<open>make_img_dir\<close> and \<^verbatim>\<open>start_extraction\<close>\<close>




section \<open>Properties of a run\<close>

subsection \<open>What a statement adds to the log\<close>



text \<open>Whatever state \<open>m\<close> starts in, it only appends events that satisfy \<open>P\<close>.\<close>

definition emits :: "(event \<Rightarrow> bool) \<Rightarrow> ('w, 'a) prog \<Rightarrow> bool" where
  "emits P m \<longleftrightarrow> (\<forall>st. \<exists>evs. log (snd (m st)) = log st @ evs \<and> list_all P evs)"

text \<open>
  The events of one pass of the image loop, for the image at index \<open>i\<close> whose URL
  \<open>u\<close> was answered by \<open>r\<close>: the request, followed by the write of the body when,
  and only when, the status is 200.
\<close>

definition image_events :: "'w env \<Rightarrow> string \<Rightarrow> nat \<times> string \<times> response \<Rightarrow> event list" where
  "image_events env button_text = (\<lambda>(i, u, r).
     HttpGet u r #
     (if status_code r = 200
      then [FileWrite (image_filename env button_text i) (content r)] else []))"


subsection \<open>The shape of the extracted data\<close>






subsection \<open>A small site to run the script on\<close>

text \<open>
  A page with a main block (element 1) and a frame (2) holding a navigation list (3)
  with the letters A (10) and B (11) and a content list (4). A has one entry (button
  20) with a text block (40) and two images (50, 51), of which only the first can be
  downloaded; B has two entries (30, 31) without text block or images. The world is
  the letter that is open. The parameter is what a search for \<^verbatim>\<open>ul\<close> finds.
\<close>

definition site :: "element list \<Rightarrow> nat env" where
  \<open>site uls = \<lparr>
     os_path_exists = (\<lambda>p w. (Inr False, w)),
     os_mkdir = (\<lambda>p w. (Inr (), w)),
     webdriver_Firefox = (\<lambda>prefs w. (Inr (), w)),
     implicitly_wait = (\<lambda>n w. (Inr (), w)),
     driver_get = (\<lambda>url w. (Inr (), w)),
     execute_script = (\<lambda>script w. (Inr (), w)),
     switch_to_frame = (\<lambda>e w. (Inr (), w)),
     driver_quit = (\<lambda>w. (Inr (), w)),
     find_element = (\<lambda>h by name w.
       if name = ''main'' then (Inr 1, w)
       else if name = ''iframe'' then (Inr 2, w)
       else if name = ''//div[@data-hook="children"]'' \<and> w = 0 then (Inr 40, w)
       else (Inl NoSuchElementException, w)),
     find_elements = (\<lambda>h by name w.
       if name = ''ul'' then (Inr uls, w)
       else if name = ''.//div'' then (Inr [10, 11], w)
       else if name = ''.//button'' then (Inr (if w = 0 then [20] else [30, 31]), w)
       else if name = ''//img'' then (Inr (if w = 0 then [50, 51] else []), w)
       else (Inl StaleElementReferenceException, w)),
     element_click = (\<lambda>e w. (Inr (), if e = 11 then 1 else if e = 10 then 0 else w)),
     element_text = (\<lambda>e w.
       (Inr (if e = 1 then ''Japan A-Z'' else if e = 10 then ''A'' else if e = 11 then ''B''
             else if e = 20 then ''Aikido'' else if e = 30 then ''Bonsai''
             else if e = 31 then ''Bushido'' else if e = 40 then ''Kampfkunst'' else []), w)),
     get_attribute = (\<lambda>e name w.
       (Inr (if e = 50 then Some ''http://a'' else if e = 51 then Some ''http://b'' else None), w)),
     until_visibility_of = (\<lambda>n data w.
       (case data of Some (One e) \<Rightarrow> Inr e | _ \<Rightarrow> Inl AttributeError, w)),
     until_element_to_be_clickable = (\<lambda>n e w. (Inr e, w)),
     time_sleep = (\<lambda>n w. w),
     requests_get = (\<lambda>url w.
       (Inr (if url = ''http://a'' then \<lparr>status_code = 200, content = ''PNG''\<rparr>
             else \<lparr>status_code = 404, content = ''gone''\<rparr>), w)),
     sanitize_filename = filter (\<lambda>c. c \<noteq> CHR ''/''),
     open_write = (\<lambda>filename data w. (Inr (), w)),
     json_dump = (\<lambda>obj path indent ensure_ascii w. (Inr (), w))
   \<rparr>\<close>

definition st0 :: "nat state" where
  "st0 = \<lparr>world = 0, log = []\<rparr>"

section \<open>Proofs\<close>

subsection \<open>Running statements\<close>

lemma bind_Inr: "m st = (Inr x, st') \<Longrightarrow> bind m f st = f x st'"
  by (simp add: bind_def)

lemma bind_Inl: "m st = (Inl e, st') \<Longrightarrow> bind m f st = (Inl e, st')"
  by (simp add: bind_def)

lemma bind_returns:
  assumes "bind m f st = (Inr y, st'')"
  obtains x st' where "m st = (Inr x, st')" and "f x st' = (Inr y, st'')"
  using assms by (auto simp: bind_def split: prod.splits sum.splits)

lemma bind_raises: "fst (m st) = Inl e \<Longrightarrow> fst (bind m f st) = Inl e"
  by (auto simp: bind_def split: prod.splits sum.splits)

lemma log_call [simp]: "log (snd (call op st)) = log st"
  by (simp add: call_def split: prod.splits)

lemma fst_call [simp]: "fst (call op st) = fst (op (world st))"
  by (simp add: call_def split: prod.splits)

lemma world_call [simp]: "world (snd (call op st)) = snd (op (world st))"
  by (simp add: call_def split: prod.splits)

subsection \<open>What the statements add to the log\<close>




lemma emits_raise [intro!]: "emits P (raise e)"
  by (simp add: emits_def raise_def)







lemma emits_mono: "emits P m \<Longrightarrow> (\<And>ev. P ev \<Longrightarrow> Q ev) \<Longrightarrow> emits Q m"
  unfolding emits_def list_all_iff by blast










subsection \<open>The lookup helper\<close>

lemma lookup_all_found:
  assumes "fst (find_elements env d b n (world st)) = Inr xs"
  shows "execute_with_exception_handling env d b n True st =
           (Inr (Some (Many xs)), st\<lparr>world := snd (find_elements env d b n (world st))\<rparr>)"
  using assms
  by (cases "find_elements env d b n (world st)")
     (simp add: execute_with_exception_handling_def try_except_NoSuchElement_def bind_def
        call_def ret_def)

lemma lookup_all_raises:
  assumes "fst (find_elements env d b n (world st)) = Inl e"
  shows "execute_with_exception_handling env d b n True st =
           (if e = NoSuchElementException
            then (Inr None, st\<lparr>world := snd (find_elements env d b n (world st)),
                                log := log st @ [Print (not_found_message n b)]\<rparr>)
            else (Inl e, st\<lparr>world := snd (find_elements env d b n (world st))\<rparr>))"
  using assms
  by (cases "find_elements env d b n (world st)")
     (simp add: execute_with_exception_handling_def try_except_NoSuchElement_def bind_def
        call_def ret_def print_def emit_def)

lemma lookup_one_found:
  assumes "fst (find_element env d b n (world st)) = Inr x"
  shows "execute_with_exception_handling env d b n False st =
           (Inr (Some (One x)), st\<lparr>world := snd (find_element env d b n (world st))\<rparr>)"
  using assms
  by (cases "find_element env d b n (world st)")
     (simp add: execute_with_exception_handling_def try_except_NoSuchElement_def bind_def
        call_def ret_def)

lemma lookup_one_raises:
  assumes "fst (find_element env d b n (world st)) = Inl e"
  shows "execute_with_exception_handling env d b n False st =
           (if e = NoSuchElementException
            then (Inr None, st\<lparr>world := snd (find_element env d b n (world st)),
                                log := log st @ [Print (not_found_message n b)]\<rparr>)
            else (Inl e, st\<lparr>world := snd (find_element env d b n (world st))\<rparr>))"
  using assms
  by (cases "find_element env d b n (world st)")
     (simp add: execute_with_exception_handling_def try_except_NoSuchElement_def bind_def
        call_def ret_def print_def emit_def)

text \<open>
  Claim C3. When the lookup behind \<^verbatim>\<open>execute_with_exception_handling\<close> raises
  \<^verbatim>\<open>NoSuchElementException\<close>, the helper returns \<^verbatim>\<open>None\<close> and prints one diagnostic
  message; when the lookup raises anything else, the helper raises the same exception and
  prints nothing. This holds for the single-element and for the multi-element search.
\<close>

theorem lookup_swallows_only_not_found:
  "(fst (find_element env driver by_filter filter_name (world st)) = Inl e \<longrightarrow>
      fst (execute_with_exception_handling env driver by_filter filter_name False st) =
        (if e = NoSuchElementException then Inr None else Inl e) \<and>
      log (snd (execute_with_exception_handling env driver by_filter filter_name False st)) =
        log st @ (if e = NoSuchElementException
                  then [Print (not_found_message filter_name by_filter)] else [])) \<and>
   (fst (find_elements env driver by_filter filter_name (world st)) = Inl e' \<longrightarrow>
      fst (execute_with_exception_handling env driver by_filter filter_name True st) =
        (if e' = NoSuchElementException then Inr None else Inl e') \<and>
      log (snd (execute_with_exception_handling env driver by_filter filter_name True st)) =
        log st @ (if e' = NoSuchElementException
                  then [Print (not_found_message filter_name by_filter)] else []))"
  by (simp add: lookup_one_raises lookup_all_raises)

lemma site_lookup_missing:
  "fst (find_element (site [3, 4]) Driver By_XPATH ''//video'' (world st0)) =
     Inl NoSuchElementException"
  "fst (find_elements (site [3, 4]) Driver By_XPATH ''//video'' (world st0)) =
     Inl StaleElementReferenceException"
  by (simp_all add: site_def st0_def)

theorem lookup_swallows_only_not_found_witness:
  "fst (find_element (site [3, 4]) Driver By_XPATH ''//video'' (world st0)) =
     Inl NoSuchElementException \<and>
   fst (execute_with_exception_handling (site [3, 4]) Driver By_XPATH ''//video'' False st0) =
     Inr None \<and>
   log (snd (execute_with_exception_handling (site [3, 4]) Driver By_XPATH ''//video'' False st0)) =
     [Print (not_found_message ''//video'' By_XPATH)] \<and>
   fst (find_elements (site [3, 4]) Driver By_XPATH ''//video'' (world st0)) =
     Inl StaleElementReferenceException \<and>
   fst (execute_with_exception_handling (site [3, 4]) Driver By_XPATH ''//video'' True st0) =
     Inl StaleElementReferenceException \<and>
   log (snd (execute_with_exception_handling (site [3, 4]) Driver By_XPATH ''//video'' True st0)) =
     []"
  using lookup_swallows_only_not_found [of "site [3, 4]" Driver By_XPATH "''//video''" st0
      NoSuchElementException StaleElementReferenceException]
  by (simp add: site_lookup_missing) (simp add: st0_def)



subsection \<open>Clicks and sleeps\<close>





subsection \<open>The content list\<close>

text \<open>
  Claim C5. After the optional click and the sleep, \<^verbatim>\<open>click_alpha_navigation_button\<close>
  searches all \<^verbatim>\<open>ul\<close> elements again and takes the one at position 1: with fewer than
  two (also with none) the call raises \<^verbatim>\<open>IndexError\<close> and returns nothing; with two or
  more, whatever it returns has the element at position 1 as accordion item.
\<close>

theorem short_ul_list_is_fatal:
  assumes prefix: "bind (if i \<noteq> 0 then click env element else ret ()) (\<lambda>_. sleep env 2) st =
                     (Inr (), st1)"
    and uls: "fst (find_elements env driver By_TAG_NAME ''ul'' (world st1)) = Inr uls"
  shows "(length uls < 2 \<longrightarrow>
            fst (click_alpha_navigation_button env i driver element st) = Inl IndexError) \<and>
         (2 \<le> length uls \<longrightarrow>
            (\<forall>r. fst (click_alpha_navigation_button env i driver element st) = Inr r \<longrightarrow>
                 fst r = uls ! 1))"
proof -
  from prefix obtain sta where
    run1: "(if i \<noteq> 0 then click env element else ret ()) st = (Inr (), sta)" and
    run2: "sleep env 2 sta = (Inr (), st1)"
    by (auto elim: bind_returns)
  define st2 where "st2 = st1\<lparr>world := snd (find_elements env driver By_TAG_NAME ''ul'' (world st1))\<rparr>"
  have run3: "execute_with_exception_handling env driver By_TAG_NAME ''ul'' True st1 =
                (Inr (Some (Many uls)), st2)"
    unfolding st2_def by (rule lookup_all_found [OF uls])
  have run: "click_alpha_navigation_button env i driver element st =
         bind (lift (subscript (Some (Many uls)) 1)) (\<lambda>accordion_item.
         bind (execute_with_exception_handling env (Element accordion_item) By_XPATH
                 ''.//button'' True)
           (\<lambda>button_elements. ret (accordion_item, button_elements))) st2"
    unfolding click_alpha_navigation_button_def
    using run1 run2 run3 by (simp add: bind_def)
  show ?thesis
  proof (intro conjI impI allI)
    assume "length uls < 2"
    then show "fst (click_alpha_navigation_button env i driver element st) = Inl IndexError"
      unfolding run by (simp add: bind_def lift_def subscript_def)
  next
    fix r
    assume "2 \<le> length uls"
      and "fst (click_alpha_navigation_button env i driver element st) = Inr r"
    then show "fst r = uls ! 1"
      unfolding run
      by (auto simp: bind_def lift_def subscript_def ret_def split: prod.splits sum.splits)
  qed
qed

lemma site_prefix:
  "bind (if (1::nat) \<noteq> 0 then click (site uls) 11 else ret ()) (\<lambda>_. sleep (site uls) 2) st0 =
     (Inr (), \<lparr>world = 1, log = [Click 11, Sleep 2]\<rparr>)"
  by (simp add: bind_def click_def sleep_def emit_def call_def site_def st0_def)

theorem short_ul_list_is_fatal_witness:
  "fst (find_elements (site [3]) Driver By_TAG_NAME ''ul''
          (world \<lparr>world = 1, log = [Click 11, Sleep 2]\<rparr>)) = Inr [3] \<and>
   length [3::nat] < 2 \<and>
   fst (click_alpha_navigation_button (site [3]) 1 Driver 11 st0) = Inl IndexError \<and>
   fst (find_elements (site [3, 4]) Driver By_TAG_NAME ''ul''
          (world \<lparr>world = 1, log = [Click 11, Sleep 2]\<rparr>)) = Inr [3, 4] \<and>
   2 \<le> length [3::nat, 4] \<and>
   fst (click_alpha_navigation_button (site [3, 4]) 1 Driver 11 st0) = Inr (4, Some (Many [30, 31]))"
proof -
  have one: "fst (find_elements (site [3]) Driver By_TAG_NAME ''ul''
          (world \<lparr>world = 1, log = [Click 11, Sleep 2]\<rparr>)) = Inr [3]"
    and two: "fst (find_elements (site [3, 4]) Driver By_TAG_NAME ''ul''
          (world \<lparr>world = 1, log = [Click 11, Sleep 2]\<rparr>)) = Inr [3, 4]"
    by (simp_all add: site_def)
  have run: "fst (click_alpha_navigation_button (site [3, 4]) 1 Driver 11 st0) =
               Inr (4, Some (Many [30, 31]))"
    by code_simp
  from short_ul_list_is_fatal [OF site_prefix one] short_ul_list_is_fatal [OF site_prefix two] one two run show ?thesis
    by simp
qed

subsection \<open>The JSON file is written last\<close>

lemma bind_assoc: "bind (bind m f) g = bind m (\<lambda>x. bind (f x) g)"
  by (rule ext) (simp add: bind_def split: prod.splits sum.splits)














subsection \<open>The image loop\<close>

lemma call_returns: "call op st = (r, st') \<Longrightarrow> log st' = log st \<and> fst (op (world st)) = r"
  by (cases "op (world st)") (auto simp: call_def)

lemma http_get_returns:
  assumes "http_get env image_url st = (Inr r, st')"
  shows "\<exists>u. image_url = Some u \<and> log st' = log st @ [HttpGet u r]"
proof (cases image_url)
  case None
  with assms show ?thesis by (simp add: http_get_def raise_def)
next
  case (Some u)
  with assms show ?thesis
    by (auto simp: http_get_def emit_def ret_def elim!: bind_returns dest!: call_returns)
qed

lemma write_file_returns:
  assumes "write_file env p b st = (Inr x, st')"
  shows "log st' = log st @ [FileWrite p b]"
  using assms
  by (auto simp: write_file_def emit_def elim!: bind_returns dest!: call_returns)

lemma upt_shift: "[k..<k + Suc n] = k # [Suc k..<Suc k + n]"
proof -
  have "k < k + Suc n" by simp
  from upt_conv_Cons [OF this] show ?thesis by (simp del: upt_Suc)
qed

lemma zip_upt_Cons:
  "zip [k..<k + length (x # xs)] (x # xs) = (k, x) # zip [Suc k..<Suc k + length xs] xs"
  using upt_shift [of k "length xs"] by (simp del: upt_Suc)

lemma download_images_from:
  assumes "download_images env button_text (zip [k..<k + length boxes] boxes) images0 st =
             (Inr images, st')"
  shows "\<exists>reqs. length reqs = length boxes \<and>
           images = images0 @ map (\<lambda>(u, r). Some u) reqs \<and>
           log st' = log st @
             concat (map (image_events env button_text) (zip [k..<k + length reqs] reqs))"
  using assms
proof (induction boxes arbitrary: k images0 st)
  case Nil
  then show ?case by (simp add: ret_def)
next
  case (Cons box boxes)
  have zip: "zip [k..<k + length (box # boxes)] (box # boxes) =
               (k, box) # zip [Suc k..<Suc k + length boxes] boxes"
    by (rule zip_upt_Cons)
  from Cons.prems obtain image_url s1 where
    attr: "call (get_attribute env box ''src'') st = (Inr image_url, s1)" and
    rest1: "bind (http_get env image_url) (\<lambda>response.
              bind (if status_code response = 200
                    then write_file env (image_filename env button_text k) (content response)
                    else ret ()) (\<lambda>_.
              download_images env button_text (zip [Suc k..<Suc k + length boxes] boxes)
                (images0 @ [image_url]))) s1 = (Inr images, st')"
    unfolding zip download_images.simps by (rule bind_returns)
  from rest1 obtain response s2 where
    get: "http_get env image_url s1 = (Inr response, s2)" and
    rest2: "bind (if status_code response = 200
                  then write_file env (image_filename env button_text k) (content response)
                  else ret ()) (\<lambda>_.
              download_images env button_text (zip [Suc k..<Suc k + length boxes] boxes)
                (images0 @ [image_url])) s2 = (Inr images, st')"
    by (rule bind_returns)
  from rest2 obtain u s3 where
    wr: "(if status_code response = 200
             then write_file env (image_filename env button_text k) (content response)
             else ret ()) s2 = (Inr u, s3)" and
    loop: "download_images env button_text (zip [Suc k..<Suc k + length boxes] boxes)
             (images0 @ [image_url]) s3 = (Inr images, st')"
    by (rule bind_returns)
  from call_returns [OF attr] have log1: "log s1 = log st" by simp
  from http_get_returns [OF get] obtain url where
    url: "image_url = Some url" and log2: "log s2 = log s1 @ [HttpGet url response]"
    by auto
  from wr have log3: "log s3 = log s2 @
      (if status_code response = 200
       then [FileWrite (image_filename env button_text k) (content response)] else [])"
    by (auto simp: ret_def dest: write_file_returns split: if_splits)
  from Cons.IH [OF loop] obtain reqs where
    reqs: "length reqs = length boxes"
      "images = (images0 @ [image_url]) @ map (\<lambda>(u, r). Some u) reqs"
      "log st' = log s3 @
         concat (map (image_events env button_text) (zip [Suc k..<Suc k + length reqs] reqs))"
    by auto
  let ?reqs = "(url, response) # reqs"
  have "zip [k..<k + length ?reqs] ?reqs =
          (k, url, response) # zip [Suc k..<Suc k + length reqs] reqs"
    by (rule zip_upt_Cons)
  then have "concat (map (image_events env button_text) (zip [k..<k + length ?reqs] ?reqs)) =
      HttpGet url response #
      (if status_code response = 200
       then [FileWrite (image_filename env button_text k) (content response)] else []) @
      concat (map (image_events env button_text) (zip [Suc k..<Suc k + length reqs] reqs))"
    by (simp add: image_events_def)
  with reqs url log1 log2 log3
  have "length ?reqs = length (box # boxes) \<and>
        images = images0 @ map (\<lambda>(u, r). Some u) ?reqs \<and>
        log st' = log st @
          concat (map (image_events env button_text) (zip [k..<k + length ?reqs] ?reqs))"
    by simp
  then show ?case by blast
qed



subsection \<open>What an entry looks like\<close>

lemma lookup_one_returns:
  assumes "execute_with_exception_handling env d b n False st = (Inr data, st')"
  shows "data = None \<or> (\<exists>e. data = Some (One e))"
proof (cases "fst (find_element env d b n (world st))")
  case (Inl e)
  from lookup_one_raises [OF Inl] assms show ?thesis by (auto split: if_splits)
next
  case (Inr x)
  from lookup_one_found [OF Inr] assms show ?thesis by auto
qed

lemma download_images_urls:
  assumes "download_images env button_text (enumerate_list boxes) [] st = (Inr images, st')"
  shows "\<exists>urls. map json_of_url images = map JStr urls"
proof -
  from assms have "download_images env button_text (zip [0..<0 + length boxes] boxes) [] st =
      (Inr images, st')"
    by (simp add: enumerate_list_def)
  from download_images_from [OF this] obtain reqs :: "(string \<times> response) list" where
    "images = [] @ map (\<lambda>(u, r). Some u) reqs" by blast
  then have "map json_of_url images = map JStr (map fst reqs)"
    by (simp add: json_of_url_def case_prod_beta)
  then show ?thesis ..
qed

lemma process_webpage_elements_returns:
  assumes "process_webpage_elements env j element accordion_item buttons st =
             (Inr data_container, st')"
  shows \<open>\<exists>st1 text_box st2 urls.
           bind (if j \<noteq> 0 then click env element else ret ()) (\<lambda>_. sleep env 3) st =
             (Inr (), st1) \<and>
           j < length buttons \<and>
           execute_with_exception_handling env (Element accordion_item) By_XPATH
             ''//div[@data-hook="children"]'' False st1 = (Inr text_box, st2) \<and>
           (case text_box of
              None \<Rightarrow>
                data_container =
                  [(''header'', JStr (buttons ! j)), (''images'', JList (map JStr urls))]
            | Some (One e) \<Rightarrow>
                (\<exists>t. fst (element_text env e (world st2)) = Inr t \<and>
                     data_container =
                       [(''header'', JStr (buttons ! j)), (''text'', JStr t),
                        (''images'', JList (map JStr urls))])
            | Some (Many xs) \<Rightarrow> False)\<close>
proof -
  from assms obtain u sa where
    run1: "(if j \<noteq> 0 then click env element else ret ()) st = (Inr u, sa)" and
    rest1: \<open>bind (sleep env 3) (\<lambda>_.
     bind (lift (list_index buttons j)) (\<lambda>button_text.
     bind (execute_with_exception_handling env (Element accordion_item) By_XPATH
             ''//div[@data-hook="children"]'' False) (\<lambda>text_box.
     bind (if truthy text_box
           then bind (text_of env text_box)
                  (\<lambda>t. ret (dict_set (dict_set [] ''header'' (JStr button_text)) ''text'' (JStr t)))
           else ret (dict_set [] ''header'' (JStr button_text))) (\<lambda>data_container.
     bind (execute_with_exception_handling env (Element accordion_item) By_XPATH ''//img'' True)
       (\<lambda>image_boxes.
     bind (lift (iterate image_boxes)) (\<lambda>boxes.
     bind (download_images env button_text (enumerate_list boxes) []) (\<lambda>images.
     ret (dict_set data_container ''images'' (JList (map json_of_url images)))))))))) sa =
       (Inr data_container, st')\<close>
    unfolding process_webpage_elements_def by (rule bind_returns)
  from rest1 obtain u' st1 where
    run2: "sleep env 3 sa = (Inr u', st1)" and
    rest2: \<open>bind (lift (list_index buttons j)) (\<lambda>button_text.
     bind (execute_with_exception_handling env (Element accordion_item) By_XPATH
             ''//div[@data-hook="children"]'' False) (\<lambda>text_box.
     bind (if truthy text_box
           then bind (text_of env text_box)
                  (\<lambda>t. ret (dict_set (dict_set [] ''header'' (JStr button_text)) ''text'' (JStr t)))
           else ret (dict_set [] ''header'' (JStr button_text))) (\<lambda>data_container.
     bind (execute_with_exception_handling env (Element accordion_item) By_XPATH ''//img'' True)
       (\<lambda>image_boxes.
     bind (lift (iterate image_boxes)) (\<lambda>boxes.
     bind (download_images env button_text (enumerate_list boxes) []) (\<lambda>images.
     ret (dict_set data_container ''images'' (JList (map json_of_url images))))))))) st1 =
       (Inr data_container, st')\<close>
    by (rule bind_returns)
  from run1 run2 have prefix:
    "bind (if j \<noteq> 0 then click env element else ret ()) (\<lambda>_. sleep env 3) st = (Inr (), st1)"
    by (simp add: bind_def)
  from rest2 obtain button_text s3 where
    run3: "lift (list_index buttons j) st1 = (Inr button_text, s3)" and
    rest3: \<open>bind (execute_with_exception_handling env (Element accordion_item) By_XPATH
             ''//div[@data-hook="children"]'' False) (\<lambda>text_box.
     bind (if truthy text_box
           then bind (text_of env text_box)
                  (\<lambda>t. ret (dict_set (dict_set [] ''header'' (JStr button_text)) ''text'' (JStr t)))
           else ret (dict_set [] ''header'' (JStr button_text))) (\<lambda>data_container.
     bind (execute_with_exception_handling env (Element accordion_item) By_XPATH ''//img'' True)
       (\<lambda>image_boxes.
     bind (lift (iterate image_boxes)) (\<lambda>boxes.
     bind (download_images env button_text (enumerate_list boxes) []) (\<lambda>images.
     ret (dict_set data_container ''images'' (JList (map json_of_url images)))))))) s3 =
       (Inr data_container, st')\<close>
    by (rule bind_returns)
  from run3 have j: "j < length buttons" and bt: "button_text = buttons ! j" and s3: "s3 = st1"
    by (auto simp: lift_def list_index_def split: if_splits)
  from rest3 obtain text_box st2 where
    run4: \<open>execute_with_exception_handling env (Element accordion_item) By_XPATH
             ''//div[@data-hook="children"]'' False st1 = (Inr text_box, st2)\<close> and
    rest4: \<open>bind (if truthy text_box
           then bind (text_of env text_box)
                  (\<lambda>t. ret (dict_set (dict_set [] ''header'' (JStr button_text)) ''text'' (JStr t)))
           else ret (dict_set [] ''header'' (JStr button_text))) (\<lambda>data_container.
     bind (execute_with_exception_handling env (Element accordion_item) By_XPATH ''//img'' True)
       (\<lambda>image_boxes.
     bind (lift (iterate image_boxes)) (\<lambda>boxes.
     bind (download_images env button_text (enumerate_list boxes) []) (\<lambda>images.
     ret (dict_set data_container ''images'' (JList (map json_of_url images))))))) st2 =
       (Inr data_container, st')\<close>
    unfolding s3 by (rule bind_returns)
  from rest4 obtain dc s5 where
    run5: "(if truthy text_box
           then bind (text_of env text_box)
                  (\<lambda>t. ret (dict_set (dict_set [] ''header'' (JStr button_text)) ''text'' (JStr t)))
           else ret (dict_set [] ''header'' (JStr button_text))) st2 = (Inr dc, s5)" and
    rest5: "bind (execute_with_exception_handling env (Element accordion_item) By_XPATH ''//img'' True)
       (\<lambda>image_boxes.
     bind (lift (iterate image_boxes)) (\<lambda>boxes.
     bind (download_images env button_text (enumerate_list boxes) []) (\<lambda>images.
     ret (dict_set dc ''images'' (JList (map json_of_url images)))))) s5 =
       (Inr data_container, st')"
    by (rule bind_returns)
  from rest5 obtain boxes images s6 s7 where
    run7: "download_images env button_text (enumerate_list boxes) [] s6 = (Inr images, s7)" and
    dc': "data_container = dict_set dc ''images'' (JList (map json_of_url images))"
    by (auto simp: ret_def lift_def elim!: bind_returns)
  from download_images_urls [OF run7] obtain urls where
    urls: "map json_of_url images = map JStr urls" ..
  from lookup_one_returns [OF run4] consider
    (none) "text_box = None" | (one) e where "text_box = Some (One e)" by auto
  then have "case text_box of
      None \<Rightarrow> data_container =
                  [(''header'', JStr (buttons ! j)), (''images'', JList (map JStr urls))]
    | Some (One e) \<Rightarrow>
        (\<exists>t. fst (element_text env e (world st2)) = Inr t \<and>
             data_container =
               [(''header'', JStr (buttons ! j)), (''text'', JStr t),
                (''images'', JList (map JStr urls))])
    | Some (Many xs) \<Rightarrow> False"
  proof cases
    case none
    with run5 have "dc = [(''header'', JStr button_text)]"
      by (simp add: truthy_def ret_def)
    with dc' urls bt none show ?thesis by simp
  next
    case (one e)
    with run5 obtain t where
      "fst (element_text env e (world st2)) = Inr t"
      "dc = [(''header'', JStr button_text), (''text'', JStr t)]"
      by (auto simp: truthy_def text_of_def ret_def elim!: bind_returns dest!: call_returns)
    with dc' urls bt one show ?thesis by simp
  qed
  with prefix j run4 show ?thesis by blast
qed

text \<open>
  Claim C4. For an entry that \<^verbatim>\<open>process_webpage_elements\<close> returns: when the lookup of the
  body-text block gave \<^verbatim>\<open>None\<close>, the entry has no key \<^verbatim>\<open>text\<close>; when it gave an element,
  the entry holds under \<^verbatim>\<open>text\<close> the text read from that element.
\<close>

theorem text_key_iff_text_box:
  assumes run: "process_webpage_elements env j element accordion_item buttons st =
                  (Inr data_container, st')"
    and st1: "st1 = snd (bind (if j \<noteq> 0 then click env element else ret ())
                           (\<lambda>_. sleep env 3) st)"
    and lookup: \<open>execute_with_exception_handling env (Element accordion_item) By_XPATH
                   ''//div[@data-hook="children"]'' False st1 = (text_box, st2)\<close>
  shows "(text_box = Inr None \<longrightarrow>
            ''text'' \<notin> set (keys data_container) \<and> dict_get data_container ''text'' = None) \<and>
         (\<forall>e. text_box = Inr (Some (One e)) \<longrightarrow>
            (\<exists>t. fst (element_text env e (world st2)) = Inr t \<and>
                 dict_get data_container ''text'' = Some (JStr t)))"
proof -
  from process_webpage_elements_returns [OF run] obtain s1 tb s2 urls where
    prefix: "bind (if j \<noteq> 0 then click env element else ret ()) (\<lambda>_. sleep env 3) st =
               (Inr (), s1)" and
    found: \<open>execute_with_exception_handling env (Element accordion_item) By_XPATH
              ''//div[@data-hook="children"]'' False s1 = (Inr tb, s2)\<close> and
    entry: "case tb of
              None \<Rightarrow>
                data_container =
                  [(''header'', JStr (buttons ! j)), (''images'', JList (map JStr urls))]
            | Some (One e) \<Rightarrow>
                (\<exists>t. fst (element_text env e (world s2)) = Inr t \<and>
                     data_container =
                       [(''header'', JStr (buttons ! j)), (''text'', JStr t),
                        (''images'', JList (map JStr urls))])
            | Some (Many xs) \<Rightarrow> False"
    by blast
  from prefix st1 have "s1 = st1" by simp
  with found lookup have tb: "text_box = Inr tb" and s2: "s2 = st2" by simp_all
  show ?thesis
  proof (intro conjI impI allI)
    assume "text_box = Inr None"
    with tb entry have "data_container =
        [(''header'', JStr (buttons ! j)), (''images'', JList (map JStr urls))]"
      by simp
    then show "''text'' \<notin> set (keys data_container)" and "dict_get data_container ''text'' = None"
      by (simp_all add: keys_def)
  next
    fix e
    assume "text_box = Inr (Some (One e))"
    with tb entry s2 obtain t where
      "fst (element_text env e (world st2)) = Inr t"
      "data_container = [(''header'', JStr (buttons ! j)), (''text'', JStr t),
                         (''images'', JList (map JStr urls))]"
      by auto
    then show "\<exists>t. fst (element_text env e (world st2)) = Inr t \<and>
                   dict_get data_container ''text'' = Some (JStr t)"
      by simp
  qed
qed

lemma site_entry_A:
  \<open>process_webpage_elements (site [3, 4]) 0 20 4 [''Aikido''] st0 =
     (Inr [(''header'', JStr ''Aikido''), (''text'', JStr ''Kampfkunst''),
           (''images'', JList [JStr ''http://a'', JStr ''http://b''])],
      \<lparr>world = 0,
       log = [Sleep 3,
              HttpGet ''http://a'' \<lparr>status_code = 200, content = ''PNG''\<rparr>,
              FileWrite ''./images/Aikido_0.png'' ''PNG'',
              HttpGet ''http://b'' \<lparr>status_code = 404, content = ''gone''\<rparr>]\<rparr>)\<close>
  by code_simp

lemma site_entry_B:
  \<open>process_webpage_elements (site [3, 4]) 1 31 4 [''Bonsai'', ''Bushido'']
       \<lparr>world = 1, log = []\<rparr> =
     (Inr [(''header'', JStr ''Bushido''), (''images'', JList [])],
      \<lparr>world = 1,
       log = [Click 31, Sleep 3,
              Print (not_found_message ''//div[@data-hook="children"]'' By_XPATH)]\<rparr>)\<close>
  by code_simp

lemma site_text_box_A:
  \<open>execute_with_exception_handling (site [3, 4]) (Element 4) By_XPATH
      ''//div[@data-hook="children"]'' False
      (snd (bind (if (0::nat) \<noteq> 0 then click (site [3, 4]) 20 else ret ())
              (\<lambda>_. sleep (site [3, 4]) 3) st0)) =
     (Inr (Some (One 40)), \<lparr>world = 0, log = [Sleep 3]\<rparr>)\<close>
  by code_simp

lemma site_text_box_B:
  \<open>execute_with_exception_handling (site [3, 4]) (Element 4) By_XPATH
      ''//div[@data-hook="children"]'' False
      (snd (bind (if (1::nat) \<noteq> 0 then click (site [3, 4]) 31 else ret ())
              (\<lambda>_. sleep (site [3, 4]) 3) \<lparr>world = 1, log = []\<rparr>)) =
     (Inr None,
      \<lparr>world = 1,
       log = [Click 31, Sleep 3,
              Print (not_found_message ''//div[@data-hook="children"]'' By_XPATH)]\<rparr>)\<close>
  by code_simp

theorem text_key_iff_text_box_witness:
  \<open>''text'' \<notin> set (keys [(''header'', JStr ''Bushido''), (''images'', JList [])]) \<and>
   dict_get [(''header'', JStr ''Bushido''), (''images'', JList [])] ''text'' = None \<and>
   (\<exists>t. fst (element_text (site [3, 4]) 40 (world \<lparr>world = 0, log = [Sleep 3]\<rparr>)) = Inr t \<and>
        dict_get [(''header'', JStr ''Aikido''), (''text'', JStr ''Kampfkunst''),
                  (''images'', JList [JStr ''http://a'', JStr ''http://b''])] ''text'' =
          Some (JStr t))\<close>
  using text_key_iff_text_box [OF site_entry_B refl site_text_box_B] text_key_iff_text_box [OF site_entry_A refl site_text_box_A]
  by blast

subsection \<open>Page keys\<close>






subsection \<open>Dictionaries\<close>






subsection \<open>The loop over the buttons of a letter\<close>







subsection \<open>The shape of what is dumped\<close>








end
